theory Spec2Isabelle
  imports Main "HOL-Library.AList" "HOL-Library.Sublist"
begin

section \<open>JavaScript values\<close>

text \<open>
  \<^verbatim>\<open>YAML.parse\<close> and \<^verbatim>\<open>JSON.parse\<close> return an untyped tree, and the loader reads it
  through \<^verbatim>\<open>any\<close>: the TypeScript interfaces are erased at run time. The model therefore
  works on JavaScript values. Numbers are the integers (the exact range of a double) and
  \<open>NaN\<close>; fractions and infinities are outside the model. An object is the list of its own
  properties; where a key occurs twice the first occurrence is the property.
\<close>

datatype jv =
    JUndefined
  | JNull
  | JBool bool
  | JNum int
  | JNaN
  | JStr string
  | JArr "jv list"
  | JObj "(string \<times> jv) list"

datatype error = ENOENT | YAMLParseError | SyntaxError | TypeError

definition bindE :: "error + 'a \<Rightarrow> ('a \<Rightarrow> error + 'b) \<Rightarrow> error + 'b" where
  "bindE m f = (case m of Inl e \<Rightarrow> Inl e | Inr x \<Rightarrow> f x)"

fun mapE :: "('a \<Rightarrow> error + 'b) \<Rightarrow> 'a list \<Rightarrow> error + 'b list" where
  "mapE f [] = Inr []"
| "mapE f (x # xs) = bindE (f x) (\<lambda>y. bindE (mapE f xs) (\<lambda>ys. Inr (y # ys)))"

text \<open>Truthiness: what \<^verbatim>\<open>||\<close>, \<^verbatim>\<open>!\<close> and \<^verbatim>\<open>filter(c => c)\<close> test.\<close>

fun truthy :: "jv \<Rightarrow> bool" where
  "truthy JUndefined = False"
| "truthy JNull = False"
| "truthy (JBool b) = b"
| "truthy (JNum n) = (n \<noteq> 0)"
| "truthy JNaN = False"
| "truthy (JStr s) = (s \<noteq> [])"
| "truthy (JArr xs) = True"
| "truthy (JObj kvs) = True"

definition nullish :: "jv \<Rightarrow> bool" where
  "nullish v = (v = JUndefined \<or> v = JNull)"

text \<open>\<^verbatim>\<open>a || b\<close> and \<^verbatim>\<open>a ?? b\<close>.\<close>

definition or_js :: "jv \<Rightarrow> jv \<Rightarrow> jv" where
  "or_js a b = (if truthy a then a else b)"

definition coalesce :: "jv \<Rightarrow> jv \<Rightarrow> jv" where
  "coalesce a b = (if nullish a then b else a)"

text \<open>
  \<^verbatim>\<open>v.k\<close> on a value that is neither \<^verbatim>\<open>null\<close> nor \<^verbatim>\<open>undefined\<close>. No key this program
  reads names a built-in property of a string, an array, a number or a boolean, so on those
  the read gives \<^verbatim>\<open>undefined\<close>.
\<close>

fun get_prop :: "jv \<Rightarrow> string \<Rightarrow> jv" where
  "get_prop (JObj kvs) k = (case map_of kvs k of Some v \<Rightarrow> v | None \<Rightarrow> JUndefined)"
| "get_prop v k = JUndefined"

text \<open>\<^verbatim>\<open>v?.k1?.k2\<close> ... : each step gives \<^verbatim>\<open>undefined\<close> on \<^verbatim>\<open>null\<close> and \<^verbatim>\<open>undefined\<close>.\<close>

fun opt_chain :: "jv \<Rightarrow> string list \<Rightarrow> jv" where
  "opt_chain v [] = v"
| "opt_chain v (k # ks) = (if nullish v then JUndefined else opt_chain (get_prop v k) ks)"

text \<open>
  \<^verbatim>\<open>config.k1?.k2?.k3\<close>: the first read is a plain one. It raises a TypeError when
  \<^verbatim>\<open>config\<close> is \<^verbatim>\<open>null\<close> or \<^verbatim>\<open>undefined\<close>; \<open>loadConfig\<close> below tests that once, before
  the first read.
\<close>

fun access :: "jv \<Rightarrow> string list \<Rightarrow> jv" where
  "access v [] = v"
| "access v (k # ks) = opt_chain (get_prop v k) ks"

subsection \<open>Conversion to string and to number\<close>

fun string_of_nat :: "nat \<Rightarrow> string" where
  "string_of_nat n =
     (if n < 10 then [''0123456789'' ! n]
      else string_of_nat (n div 10) @ [''0123456789'' ! (n mod 10)])"

declare string_of_nat.simps [simp del]

definition string_of_int :: "int \<Rightarrow> string" where
  "string_of_int i = (if i < 0 then CHR ''-'' # string_of_nat (nat (- i)) else string_of_nat (nat i))"

fun join_comma :: "string list \<Rightarrow> string" where
  "join_comma [] = []"
| "join_comma [s] = s"
| "join_comma (s # t # ss) = s @ '','' @ join_comma (t # ss)"

text \<open>
  ToString, as a template literal applies it. A plain object prints through
  \<^verbatim>\<open>Object.prototype.toString\<close>; an array through \<^verbatim>\<open>join\<close>, which prints \<^verbatim>\<open>null\<close> and
  \<^verbatim>\<open>undefined\<close> entries as the empty string. Integers print in decimal (JavaScript does so
  below \<open>10\<^sup>2\<^sup>1\<close>).
\<close>

fun ToString :: "jv \<Rightarrow> string" where
  "ToString JUndefined = ''undefined''"
| "ToString JNull = ''null''"
| "ToString (JBool b) = (if b then ''true'' else ''false'')"
| "ToString (JNum n) = string_of_int n"
| "ToString JNaN = ''NaN''"
| "ToString (JStr s) = s"
| "ToString (JArr xs) = join_comma (map (\<lambda>x. if nullish x then [] else ToString x) xs)"
| "ToString (JObj kvs) = ''[object Object]''"

text \<open>
  Parsed data holds no function, so an object with an own property \<^verbatim>\<open>toString\<close> has no
  callable \<^verbatim>\<open>toString\<close>, and the inherited \<^verbatim>\<open>valueOf\<close> returns the object itself: the
  conversion to a primitive raises a TypeError.
\<close>

fun throwsToPrimitive :: "jv \<Rightarrow> bool" where
  "throwsToPrimitive (JArr xs) = (\<exists>x \<in> set xs. throwsToPrimitive x)"
| "throwsToPrimitive (JObj kvs) = (map_of kvs ''toString'' \<noteq> None)"
| "throwsToPrimitive v = False"

text \<open>\<^verbatim>\<open>`pre${v}post`\<close>\<close>

definition template :: "string \<Rightarrow> jv \<Rightarrow> string \<Rightarrow> error + jv" where
  "template pre v post =
     (if throwsToPrimitive v then Inl TypeError else Inr (JStr (pre @ ToString v @ post)))"

text \<open>
  ToNumber. The grammar of numeric strings (StringToNumber) is a parameter of the model; it
  returns a number or \<open>NaN\<close>.
\<close>

definition ToNumber :: "(string \<Rightarrow> jv) \<Rightarrow> jv \<Rightarrow> error + jv" where
  "ToNumber s2n v =
     (case v of
        JUndefined \<Rightarrow> Inr JNaN
      | JNull \<Rightarrow> Inr (JNum 0)
      | JBool b \<Rightarrow> Inr (JNum (if b then 1 else 0))
      | JNum n \<Rightarrow> Inr (JNum n)
      | JNaN \<Rightarrow> Inr JNaN
      | JStr s \<Rightarrow> Inr (s2n s)
      | JArr xs \<Rightarrow> (if throwsToPrimitive v then Inl TypeError else Inr (s2n (ToString v)))
      | JObj kvs \<Rightarrow> (if throwsToPrimitive v then Inl TypeError else Inr (s2n (ToString v))))"

text \<open>\<^verbatim>\<open>a - b\<close>\<close>

definition minus_js :: "(string \<Rightarrow> jv) \<Rightarrow> jv \<Rightarrow> jv \<Rightarrow> error + jv" where
  "minus_js s2n a b =
     bindE (ToNumber s2n a) (\<lambda>x.
     bindE (ToNumber s2n b) (\<lambda>y.
       Inr (case (x, y) of (JNum m, JNum n) \<Rightarrow> JNum (m - n) | _ \<Rightarrow> JNaN)))"

text \<open>
  \<^verbatim>\<open>xs.slice(0, stop)\<close>: the end index is converted to an integer (\<open>NaN\<close> to 0); a negative one
  counts from the end of the array.
\<close>

definition slice0 :: "(string \<Rightarrow> jv) \<Rightarrow> 'a list \<Rightarrow> jv \<Rightarrow> error + 'a list" where
  "slice0 s2n xs stop =
     (if stop = JUndefined then Inr xs
      else bindE (ToNumber s2n stop) (\<lambda>n.
        Inr (case n of
               JNum k \<Rightarrow> (if k < 0 then take (nat (int (length xs) + k)) xs else take (nat k) xs)
             | _ \<Rightarrow> [])))"

text \<open>
  \<^verbatim>\<open>arr.map(f)\<close> and \<^verbatim>\<open>arr.filter(f)\<close> on a value: only an array has these
  methods; on anything else the call raises a TypeError.
\<close>

definition array_map :: "(jv \<Rightarrow> error + 'b) \<Rightarrow> jv \<Rightarrow> error + 'b list" where
  "array_map f v = (case v of JArr xs \<Rightarrow> mapE f xs | _ \<Rightarrow> Inl TypeError)"

definition array_filter :: "(jv \<Rightarrow> bool) \<Rightarrow> jv \<Rightarrow> error + jv list" where
  "array_filter p v = (case v of JArr xs \<Rightarrow> Inr (filter p xs) | _ \<Rightarrow> Inl TypeError)"

text \<open>\<^verbatim>\<open>s.replace(/\D/g, '')\<close>: only a string has the method.\<close>

definition isDigit :: "char \<Rightarrow> bool" where
  "isDigit c = (c \<in> set ''0123456789'')"

definition digitsOnly :: "string \<Rightarrow> string" where
  "digitsOnly s = filter isDigit s"

definition replace_nondigits :: "jv \<Rightarrow> error + jv" where
  "replace_nondigits v = (case v of JStr s \<Rightarrow> Inr (JStr (digitsOnly s)) | _ \<Rightarrow> Inl TypeError)"

subsection \<open>The runtime\<close>

text \<open>
  What the loader takes from outside: the calendar year, the file system (a path relative to
  \<^verbatim>\<open>process.cwd()\<close> to the file's content, \<open>None\<close> when the read fails), the two parsers
  (\<open>None\<close> when they raise) and StringToNumber.
\<close>

record runtime =
  currentYear :: int
  readFileSync :: "string \<Rightarrow> string option"
  YAML_parse :: "string \<Rightarrow> jv option"
  JSON_parse :: "string \<Rightarrow> jv option"
  StringToNumber :: "string \<Rightarrow> jv"

section \<open>The resolved configuration\<close>

text \<open>
  One record for each interface of the loader, with the interface's field names. A field
  holds a JavaScript value: the declared TypeScript type says what the loader means to put
  there, not what a malformed document makes it put there. A sequence the loader builds
  itself (with \<^verbatim>\<open>map\<close> or \<^verbatim>\<open>filter\<close>) is a list; one it copies from the document is a
  value.
\<close>

record FooterLinks =
  quickLinks :: jv
  legal :: jv

record Address =
  street :: jv
  suite :: jv
  city :: jv
  state :: jv
  zip :: jv
  country :: jv

record Contact =
  email :: jv
  phone :: jv
  phoneRaw :: jv
  phoneLocal :: jv
  address :: Address
  serviceArea :: jv

record Social =
  facebook :: jv
  instagram :: jv
  twitter :: jv
  linkedin :: jv
  youtube :: jv
  tiktok :: jv
  pinterest :: jv
  yelp :: jv
  googleBusiness :: jv
  nextdoor :: jv
  bbb :: jv
  whatsapp :: jv

record Hours =
  display :: jv
  monday :: jv
  tuesday :: jv
  wednesday :: jv
  thursday :: jv
  friday :: jv
  saturday :: jv
  sunday :: jv

record HoursStructured =
  days :: jv
  "open" :: jv
  close :: jv

record GoogleAnalytics =
  enabled :: jv
  measurementId :: jv

record GoogleTagManager =
  enabled :: jv
  containerId :: jv

record Analytics =
  googleAnalytics :: GoogleAnalytics
  googleTagManager :: GoogleTagManager
  googleSiteVerification :: jv

record ReviewPageConfig =
  path :: jv
  layout :: jv
  position :: jv
  maxReviews :: jv

record ReviewsConfig =
  enabled :: jv
  pages :: "ReviewPageConfig list"
  tagged :: jv

record Business =
  name :: jv
  legalName :: jv
  tagline :: jv
  description :: jv
  yearFounded :: jv
  industry :: jv

record BrandingColors =
  primary :: jv
  primaryDark :: jv
  secondary :: jv
  accent :: jv
  "text" :: jv
  textLight :: jv
  background :: jv
  surface :: jv

record Fonts =
  heading :: jv
  body :: jv

record Logo =
  "text" :: jv
  showIcon :: jv

record Branding =
  colors :: BrandingColors
  fonts :: Fonts
  style :: jv
  logo :: Logo

record Trust =
  showYearsInBusiness :: jv
  yearsInBusiness :: jv
  customersServed :: jv
  satisfactionRate :: jv
  responseTime :: jv
  certifications :: "jv list"
  awards :: jv
  affiliations :: jv
  guarantees :: jv

record Link =
  "text" :: jv
  url :: jv

record CTA =
  primary :: Link
  secondary :: Link
  urgency :: jv

record ServiceItem =
  name :: jv
  description :: jv
  icon :: jv
  url :: jv

record Services =
  enabled :: jv
  headline :: jv
  subheadline :: jv
  items :: "ServiceItem list"

record ValuePropItem =
  title :: jv
  description :: jv
  icon :: jv

record ValueProps =
  enabled :: jv
  headline :: jv
  items :: "ValuePropItem list"

record Features =
  blog :: jv
  contactForm :: jv
  reviews :: jv
  servicesSection :: jv
  newsletter :: jv
  chat :: jv
  booking :: jv

record SEO =
  titleTemplate :: jv
  defaultTitle :: jv
  defaultDescription :: jv
  "keywords" :: jv

record Legal =
  copyrightHolder :: jv
  privacyEmail :: jv
  termsLastUpdated :: jv
  privacyLastUpdated :: jv

record SiteConfig =
  name :: jv
  tagline :: jv
  description :: jv
  url :: jv
  contact :: Contact
  social :: Social
  hours :: Hours
  hoursStructured :: "HoursStructured list"
  navigation :: jv
  footerLinks :: FooterLinks
  defaultOgImage :: jv
  analytics :: Analytics
  reviews :: ReviewsConfig
  copyright :: jv
  business :: Business
  branding :: Branding
  trust :: Trust
  cta :: CTA
  services :: Services
  valueProps :: ValueProps
  features :: Features
  seo :: SEO
  legal :: Legal
  "locale" :: jv
  timezone :: jv

record Review =
  id :: jv
  author :: jv
  rating :: jv
  date :: jv
  "text" :: jv
  hasPhoto :: jv

section \<open>The loader\<close>

text \<open>
  \<open>loadConfig\<close> builds its result in local constants and in the fields of the object it
  returns, in this order; each is a definition below, under the name of the constant or of
  the field. Those that call \<^verbatim>\<open>map\<close>, \<^verbatim>\<open>filter\<close> or \<^verbatim>\<open>replace\<close>, subtract or fill a
  template can raise, and return a sum.
\<close>

definition or_jsE :: "jv \<Rightarrow> error + jv \<Rightarrow> error + jv" where
  \<comment> \<open>\<^verbatim>\<open>a || b\<close> where evaluating \<open>b\<close> can raise: \<open>b\<close> is evaluated only when \<open>a\<close> is falsy\<close>
  "or_jsE a b = (if truthy a then Inr a else b)"

definition yearFounded :: "runtime \<Rightarrow> jv \<Rightarrow> jv" where
  "yearFounded rt config =
     or_js (access config [''business'', ''year_founded'']) (JNum (currentYear rt))"

definition yearsInBusiness :: "runtime \<Rightarrow> jv \<Rightarrow> error + jv" where
  "yearsInBusiness rt config =
     minus_js (StringToNumber rt) (JNum (currentYear rt)) (yearFounded rt config)"

definition business :: "runtime \<Rightarrow> jv \<Rightarrow> Business" where
  "business rt config =
     \<lparr> Business.name =
         or_js (or_js (access config [''business'', ''name'']) (access config [''site'', ''name'']))
           (JStr ''Acme Corp''),
       Business.legalName =
         or_js (or_js (or_js (access config [''business'', ''legal_name''])
                  (access config [''business'', ''name''])) (access config [''site'', ''name'']))
           (JStr ''Acme Corp''),
       Business.tagline =
         or_js (or_js (access config [''business'', ''tagline'']) (access config [''site'', ''tagline'']))
           (JStr ''''),
       Business.description =
         or_js (or_js (access config [''business'', ''description''])
                  (access config [''site'', ''description'']))
           (JStr ''''),
       Business.yearFounded = yearFounded rt config,
       Business.industry = or_js (access config [''business'', ''industry'']) (JStr ''general'') \<rparr>"

definition branding :: "jv \<Rightarrow> Branding" where
  "branding config =
     \<lparr> Branding.colors =
         \<lparr> BrandingColors.primary = or_js (access config [''branding'', ''colors'', ''primary'']) (JStr ''#2563eb''),
           BrandingColors.primaryDark = or_js (access config [''branding'', ''colors'', ''primary_dark'']) (JStr ''#1e40af''),
           BrandingColors.secondary = or_js (access config [''branding'', ''colors'', ''secondary'']) (JStr ''#64748b''),
           BrandingColors.accent = or_js (access config [''branding'', ''colors'', ''accent'']) (JStr ''#f59e0b''),
           BrandingColors.text = or_js (access config [''branding'', ''colors'', ''text'']) (JStr ''#1f2937''),
           BrandingColors.textLight = or_js (access config [''branding'', ''colors'', ''text_light'']) (JStr ''#6b7280''),
           BrandingColors.background = or_js (access config [''branding'', ''colors'', ''background'']) (JStr ''#ffffff''),
           BrandingColors.surface = or_js (access config [''branding'', ''colors'', ''surface'']) (JStr ''#f9fafb'') \<rparr>,
       Branding.fonts =
         \<lparr> Fonts.heading = or_js (access config [''branding'', ''fonts'', ''heading'']) (JStr ''Inter''),
           Fonts.body = or_js (access config [''branding'', ''fonts'', ''body'']) (JStr ''Inter'') \<rparr>,
       Branding.style = or_js (access config [''branding'', ''style'']) (JStr ''modern''),
       Branding.logo =
         \<lparr> Logo.text = or_js (access config [''branding'', ''logo'', ''text'']) (JStr ''''),
           Logo.showIcon = coalesce (access config [''branding'', ''logo'', ''show_icon'']) (JBool True) \<rparr> \<rparr>"

definition trust :: "jv \<Rightarrow> jv \<Rightarrow> error + Trust" where
  "trust config yib =
     bindE (array_filter truthy (or_js (access config [''trust'', ''certifications'']) (JArr [])))
       (\<lambda>certs. Inr
         \<lparr> Trust.showYearsInBusiness = coalesce (access config [''trust'', ''show_years_in_business'']) (JBool True),
           Trust.yearsInBusiness = yib,
           Trust.customersServed = or_js (access config [''trust'', ''customers_served'']) (JStr ''''),
           Trust.satisfactionRate = or_js (access config [''trust'', ''satisfaction_rate'']) (JStr ''''),
           Trust.responseTime = or_js (access config [''trust'', ''response_time'']) (JStr ''''),
           Trust.certifications = certs,
           Trust.awards = or_js (access config [''trust'', ''awards'']) (JArr []),
           Trust.affiliations = or_js (access config [''trust'', ''affiliations'']) (JArr []),
           Trust.guarantees = or_js (access config [''trust'', ''guarantees'']) (JArr []) \<rparr>)"

definition cta :: "jv \<Rightarrow> error + CTA" where
  "cta config =
     bindE (or_jsE (access config [''cta'', ''secondary'', ''url''])
              (template ''tel:'' (or_js (access config [''contact'', ''phone_raw'']) (JStr '''')) ''''))
       (\<lambda>secondary_url. Inr
         \<lparr> CTA.primary =
             \<lparr> Link.text = or_js (access config [''cta'', ''primary'', ''text'']) (JStr ''Get Started''),
               Link.url = or_js (access config [''cta'', ''primary'', ''url'']) (JStr ''/contact'') \<rparr>,
           CTA.secondary =
             \<lparr> Link.text = or_js (access config [''cta'', ''secondary'', ''text'']) (JStr ''Call Now''),
               Link.url = secondary_url \<rparr>,
           CTA.urgency = or_js (access config [''cta'', ''urgency'']) (JStr '''') \<rparr>)"

text \<open>
  The callbacks of \<^verbatim>\<open>map\<close> read properties of the item with a plain \<^verbatim>\<open>.\<close>: on a
  \<^verbatim>\<open>null\<close> item the read raises a TypeError.
\<close>

definition serviceItem :: "jv \<Rightarrow> error + ServiceItem" where
  "serviceItem s =
     (if nullish s then Inl TypeError
      else Inr \<lparr> ServiceItem.name = or_js (get_prop s ''name'') (JStr ''''),
                 ServiceItem.description = or_js (get_prop s ''description'') (JStr ''''),
                 ServiceItem.icon = or_js (get_prop s ''icon'') (JStr ''star''),
                 ServiceItem.url = or_js (get_prop s ''url'') (JStr '''') \<rparr>)"

definition services :: "jv \<Rightarrow> error + Services" where
  "services config =
     bindE (array_map serviceItem (or_js (access config [''services'', ''items'']) (JArr [])))
       (\<lambda>its. Inr
         \<lparr> Services.enabled = coalesce (access config [''services'', ''enabled'']) (JBool True),
           Services.headline = or_js (access config [''services'', ''headline'']) (JStr ''Our Services''),
           Services.subheadline = or_js (access config [''services'', ''subheadline'']) (JStr ''''),
           Services.items = its \<rparr>)"

definition valuePropItem :: "jv \<Rightarrow> error + ValuePropItem" where
  "valuePropItem v =
     (if nullish v then Inl TypeError
      else Inr \<lparr> ValuePropItem.title = or_js (get_prop v ''title'') (JStr ''''),
                 ValuePropItem.description = or_js (get_prop v ''description'') (JStr ''''),
                 ValuePropItem.icon = or_js (get_prop v ''icon'') (JStr ''check'') \<rparr>)"

definition valueProps :: "jv \<Rightarrow> error + ValueProps" where
  "valueProps config =
     bindE (array_map valuePropItem (or_js (access config [''value_props'', ''items'']) (JArr [])))
       (\<lambda>its. Inr
         \<lparr> ValueProps.enabled = coalesce (access config [''value_props'', ''enabled'']) (JBool True),
           ValueProps.headline =
             or_js (access config [''value_props'', ''headline'']) (JStr ''Why Choose Us''),
           ValueProps.items = its \<rparr>)"

definition features :: "jv \<Rightarrow> Features" where
  "features config =
     \<lparr> Features.blog = coalesce (access config [''features'', ''blog'']) (JBool True),
       Features.contactForm = coalesce (access config [''features'', ''contact_form'']) (JBool True),
       Features.reviews = coalesce (access config [''features'', ''reviews'']) (JBool True),
       Features.servicesSection =
         coalesce (access config [''features'', ''services_section'']) (JBool True),
       Features.newsletter = coalesce (access config [''features'', ''newsletter'']) (JBool False),
       Features.chat = coalesce (access config [''features'', ''chat'']) (JBool False),
       Features.booking = coalesce (access config [''features'', ''booking'']) (JBool False) \<rparr>"

definition seo :: "jv \<Rightarrow> Business \<Rightarrow> error + SEO" where
  "seo config b =
     bindE (or_jsE (access config [''seo'', ''title_template''])
              (template ''%s | '' (Business.name b) ''''))
       (\<lambda>tt. Inr
         \<lparr> SEO.titleTemplate = tt,
           SEO.defaultTitle = or_js (access config [''seo'', ''default_title'']) (Business.name b),
           SEO.defaultDescription =
             or_js (access config [''seo'', ''default_description'']) (Business.description b),
           SEO.keywords = or_js (access config [''seo'', ''keywords'']) (JArr []) \<rparr>)"

definition legal :: "jv \<Rightarrow> Business \<Rightarrow> Legal" where
  "legal config b =
     \<lparr> Legal.copyrightHolder = or_js (access config [''legal'', ''copyright_holder'']) (Business.name b),
       Legal.privacyEmail =
         or_js (or_js (access config [''legal'', ''privacy_email'']) (access config [''contact'', ''email'']))
           (JStr ''''),
       Legal.termsLastUpdated = or_js (access config [''legal'', ''terms_last_updated'']) (JStr ''''),
       Legal.privacyLastUpdated =
         or_js (access config [''legal'', ''privacy_last_updated'']) (JStr '''') \<rparr>"

definition phoneDisplay :: "jv \<Rightarrow> jv" where
  "phoneDisplay config =
     or_js (or_js (access config [''contact'', ''phone'']) (access config [''contact'', ''phone_local'']))
       (JStr '''')"

definition phoneRaw :: "jv \<Rightarrow> error + jv" where
  "phoneRaw config =
     or_jsE (access config [''contact'', ''phone_raw'']) (replace_nondigits (phoneDisplay config))"

definition hoursDetailed :: "jv \<Rightarrow> jv" where
  "hoursDetailed config =
     or_js (or_js (access config [''hours'', ''detailed'']) (access config [''hours''])) (JObj [])"

definition contact :: "jv \<Rightarrow> jv \<Rightarrow> Contact" where
  "contact config raw =
     \<lparr> Contact.email = or_js (access config [''contact'', ''email'']) (JStr ''''),
       Contact.phone = phoneDisplay config,
       Contact.phoneRaw = raw,
       Contact.phoneLocal = phoneDisplay config,
       Contact.address =
         \<lparr> Address.street = or_js (access config [''contact'', ''address'', ''street'']) (JStr ''''),
           Address.suite = or_js (access config [''contact'', ''address'', ''suite'']) (JStr ''''),
           Address.city = or_js (access config [''contact'', ''address'', ''city'']) (JStr ''''),
           Address.state = or_js (access config [''contact'', ''address'', ''state'']) (JStr ''''),
           Address.zip = or_js (access config [''contact'', ''address'', ''zip'']) (JStr ''''),
           Address.country = or_js (access config [''contact'', ''address'', ''country'']) (JStr '''') \<rparr>,
       Contact.serviceArea = or_js (access config [''contact'', ''service_area'']) (JStr '''') \<rparr>"

definition social :: "jv \<Rightarrow> Social" where
  "social config =
     \<lparr> Social.facebook = or_js (access config [''social'', ''facebook'']) (JStr ''''),
       Social.instagram = or_js (access config [''social'', ''instagram'']) (JStr ''''),
       Social.twitter = or_js (access config [''social'', ''twitter'']) (JStr ''''),
       Social.linkedin = or_js (access config [''social'', ''linkedin'']) (JStr ''''),
       Social.youtube = or_js (access config [''social'', ''youtube'']) (JStr ''''),
       Social.tiktok = or_js (access config [''social'', ''tiktok'']) (JStr ''''),
       Social.pinterest = or_js (access config [''social'', ''pinterest'']) (JStr ''''),
       Social.yelp = or_js (access config [''social'', ''yelp'']) (JStr ''''),
       Social.googleBusiness = or_js (access config [''social'', ''google_business'']) (JStr ''''),
       Social.nextdoor = or_js (access config [''social'', ''nextdoor'']) (JStr ''''),
       Social.bbb = or_js (access config [''social'', ''bbb'']) (JStr ''''),
       Social.whatsapp = or_js (access config [''social'', ''whatsapp'']) (JStr '''') \<rparr>"

definition hours :: "jv \<Rightarrow> Hours" where
  "hours config =
     \<lparr> Hours.display = or_js (access config [''hours'', ''display'']) (JStr ''Mon-Fri: 9AM-5PM''),
       Hours.monday = or_js (get_prop (hoursDetailed config) ''monday'') (JStr ''''),
       Hours.tuesday = or_js (get_prop (hoursDetailed config) ''tuesday'') (JStr ''''),
       Hours.wednesday = or_js (get_prop (hoursDetailed config) ''wednesday'') (JStr ''''),
       Hours.thursday = or_js (get_prop (hoursDetailed config) ''thursday'') (JStr ''''),
       Hours.friday = or_js (get_prop (hoursDetailed config) ''friday'') (JStr ''''),
       Hours.saturday = or_js (get_prop (hoursDetailed config) ''saturday'') (JStr ''''),
       Hours.sunday = or_js (get_prop (hoursDetailed config) ''sunday'') (JStr '''') \<rparr>"

definition hoursStructuredItem :: "jv \<Rightarrow> error + HoursStructured" where
  "hoursStructuredItem h =
     (if nullish h then Inl TypeError
      else Inr \<lparr> HoursStructured.days = or_js (get_prop h ''days'') (JArr []),
                 HoursStructured.open = or_js (get_prop h ''open'') (JStr ''''),
                 HoursStructured.close = or_js (get_prop h ''close'') (JStr '''') \<rparr>)"

definition hoursStructured :: "jv \<Rightarrow> error + HoursStructured list" where
  "hoursStructured config =
     array_map hoursStructuredItem (or_js (access config [''hours'', ''structured'']) (JArr []))"

definition footerLinks :: "jv \<Rightarrow> FooterLinks" where
  "footerLinks config =
     \<lparr> FooterLinks.quickLinks =
         or_js (or_js (access config [''navigation'', ''footer'', ''quick_links''])
                  (access config [''navigation'', ''footer'', ''quickLinks'']))
           (JArr []),
       FooterLinks.legal = or_js (access config [''navigation'', ''footer'', ''legal'']) (JArr []) \<rparr>"

definition analytics :: "jv \<Rightarrow> Analytics" where
  "analytics config =
     \<lparr> Analytics.googleAnalytics =
         \<lparr> GoogleAnalytics.enabled =
             or_js (access config [''analytics'', ''google_analytics'', ''enabled'']) (JBool False),
           GoogleAnalytics.measurementId =
             or_js (access config [''analytics'', ''google_analytics'', ''measurement_id'']) (JStr '''') \<rparr>,
       Analytics.googleTagManager =
         \<lparr> GoogleTagManager.enabled =
             or_js (access config [''analytics'', ''google_tag_manager'', ''enabled'']) (JBool False),
           GoogleTagManager.containerId =
             or_js (access config [''analytics'', ''google_tag_manager'', ''container_id'']) (JStr '''') \<rparr>,
       Analytics.googleSiteVerification =
         or_js (access config [''analytics'', ''google_site_verification'']) (JStr '''') \<rparr>"

definition reviewPageConfig :: "jv \<Rightarrow> error + ReviewPageConfig" where
  "reviewPageConfig p =
     (if nullish p then Inl TypeError
      else Inr \<lparr> ReviewPageConfig.path = get_prop p ''path'',
                 ReviewPageConfig.layout = or_js (get_prop p ''layout'') (JStr ''standard''),
                 ReviewPageConfig.position = or_js (get_prop p ''position'') (JStr ''before-cta''),
                 ReviewPageConfig.maxReviews = or_js (get_prop p ''max_reviews'') (JNum 3) \<rparr>)"

definition reviews :: "jv \<Rightarrow> error + ReviewsConfig" where
  "reviews config =
     bindE (array_map reviewPageConfig (or_js (access config [''reviews'', ''pages'']) (JArr [])))
       (\<lambda>ps. Inr
         \<lparr> ReviewsConfig.enabled = coalesce (access config [''reviews'', ''enabled'']) (JBool True),
           ReviewsConfig.pages = ps,
           ReviewsConfig.tagged = or_js (access config [''reviews'', ''tagged'']) (JObj []) \<rparr>)"

text \<open>The copyright sign, as the two bytes of its UTF-8 encoding.\<close>

definition copyright_sign :: string where
  "copyright_sign = [char_of (194 :: nat), char_of (169 :: nat)]"

definition copyright :: "runtime \<Rightarrow> Legal \<Rightarrow> error + jv" where
  "copyright rt l =
     template (copyright_sign @ '' '' @ string_of_int (currentYear rt) @ '' '')
       (Legal.copyrightHolder l) ''. All rights reserved.''"

text \<open>
  The statements of \<open>loadConfig\<close> that follow the parse, as a function of the parsed
  document. The first property read of \<^verbatim>\<open>config\<close> is a plain one, so a document that
  parses to \<^verbatim>\<open>null\<close> (an empty file) raises a TypeError.
\<close>

definition resolve :: "runtime \<Rightarrow> jv \<Rightarrow> error + SiteConfig" where
  "resolve rt config =
     (if nullish config then Inl TypeError
      else
        bindE (yearsInBusiness rt config) (\<lambda>yib.
        let b = business rt config;
            br = branding config in
        bindE (trust config yib) (\<lambda>tr.
        bindE (cta config) (\<lambda>ct.
        bindE (services config) (\<lambda>sv.
        bindE (valueProps config) (\<lambda>vp.
        let ft = features config in
        bindE (seo config b) (\<lambda>se.
        let lg = legal config b in
        bindE (phoneRaw config) (\<lambda>raw.
        bindE (hoursStructured config) (\<lambda>hs.
        bindE (reviews config) (\<lambda>rv.
        bindE (copyright rt lg) (\<lambda>cr. Inr
          \<lparr> SiteConfig.name = Business.name b,
            SiteConfig.tagline = Business.tagline b,
            SiteConfig.description = Business.description b,
            SiteConfig.url = or_js (access config [''site'', ''url'']) (JStr ''''),
            SiteConfig.contact = contact config raw,
            SiteConfig.social = social config,
            SiteConfig.hours = hours config,
            SiteConfig.hoursStructured = hs,
            SiteConfig.navigation = or_js (access config [''navigation'', ''main'']) (JArr []),
            SiteConfig.footerLinks = footerLinks config,
            SiteConfig.defaultOgImage =
              or_js (access config [''site'', ''default_og_image'']) (JStr ''/images/og-image.png''),
            SiteConfig.analytics = analytics config,
            SiteConfig.reviews = rv,
            SiteConfig.copyright = cr,
            SiteConfig.business = b,
            SiteConfig.branding = br,
            SiteConfig.trust = tr,
            SiteConfig.cta = ct,
            SiteConfig.services = sv,
            SiteConfig.valueProps = vp,
            SiteConfig.features = ft,
            SiteConfig.seo = se,
            SiteConfig.legal = lg,
            SiteConfig.locale = or_js (access config [''site'', ''locale'']) (JStr ''en-US''),
            SiteConfig.timezone =
              or_js (access config [''site'', ''timezone'']) (JStr ''America/New_York'') \<rparr>)))))))))))"

text \<open>
  \<open>loadConfig\<close>: the document is read from \<^verbatim>\<open>config.yaml\<close> in the working directory
  and parsed; a failure of either aborts the load.
\<close>

definition loadConfig :: "runtime \<Rightarrow> error + SiteConfig" where
  "loadConfig rt =
     (case readFileSync rt ''config.yaml'' of
        None \<Rightarrow> Inl ENOENT
      | Some configFile \<Rightarrow>
     (case YAML_parse rt configFile of
        None \<Rightarrow> Inl YAMLParseError
      | Some config \<Rightarrow> resolve rt config))"

section \<open>The reviews accessor\<close>

definition review :: "jv \<Rightarrow> error + Review" where
  "review r =
     (if nullish r then Inl TypeError
      else Inr \<lparr> Review.id = get_prop r ''id'',
                 Review.author = get_prop r ''author'',
                 Review.rating = get_prop r ''rating'',
                 Review.date = get_prop r ''date'',
                 Review.text = get_prop r ''text'',
                 Review.hasPhoto = or_js (get_prop r ''hasPhoto'') (JBool False) \<rparr>)"

text \<open>The body of the \<^verbatim>\<open>try\<close> block of \<open>loadReviews\<close>, then the function with its \<^verbatim>\<open>catch\<close>.\<close>

definition loadReviews_try :: "runtime \<Rightarrow> error + Review list" where
  "loadReviews_try rt =
     (case readFileSync rt ''data/reviews.json'' of
        None \<Rightarrow> Inl ENOENT
      | Some reviewsFile \<Rightarrow>
     (case JSON_parse rt reviewsFile of
        None \<Rightarrow> Inl SyntaxError
      | Some data \<Rightarrow>
     (if nullish data then Inl TypeError
      else array_map review (or_js (get_prop data ''reviews'') (JArr [])))))"

definition loadReviews :: "runtime \<Rightarrow> Review list" where
  "loadReviews rt = (case loadReviews_try rt of Inl e \<Rightarrow> [] | Inr rs \<Rightarrow> rs)"

text \<open>
  \<^verbatim>\<open>Object.entries\<close>: the own properties of an object, the indexed entries of an array,
  the characters of a string, nothing for a number or a boolean; a TypeError on \<^verbatim>\<open>null\<close>
  and \<^verbatim>\<open>undefined\<close>. (JavaScript lists integer keys first; the accessor only tests
  membership in the result.)
\<close>

definition object_entries :: "jv \<Rightarrow> error + (string \<times> jv) list" where
  "object_entries v =
     (case v of
        JUndefined \<Rightarrow> Inl TypeError
      | JNull \<Rightarrow> Inl TypeError
      | JObj kvs \<Rightarrow> Inr (AList.clearjunk kvs)
      | JArr xs \<Rightarrow> Inr (List.zip (map string_of_nat [0..<length xs]) xs)
      | JStr s \<Rightarrow> Inr (List.zip (map string_of_nat [0..<length s]) (map (\<lambda>c. JStr [c]) s))
      | _ \<Rightarrow> Inr [])"

text \<open>
  \<^verbatim>\<open>pages.includes(pagePath)\<close>: membership in an array, substring test on a string, a
  TypeError on anything else.
\<close>

definition includes_js :: "jv \<Rightarrow> string \<Rightarrow> error + bool" where
  "includes_js v pagePath =
     (case v of
        JArr ps \<Rightarrow> Inr (JStr pagePath \<in> set ps)
      | JStr p \<Rightarrow> Inr (sublist pagePath p)
      | _ \<Rightarrow> Inl TypeError)"

fun filterE :: "('a \<Rightarrow> error + bool) \<Rightarrow> 'a list \<Rightarrow> error + 'a list" where
  "filterE p [] = Inr []"
| "filterE p (x # xs) =
     bindE (p x) (\<lambda>keep. bindE (filterE p xs) (\<lambda>ys. Inr (if keep then x # ys else ys)))"

definition taggedReviewIds :: "jv \<Rightarrow> string \<Rightarrow> error + string list" where
  "taggedReviewIds tg pagePath =
     bindE (object_entries tg) (\<lambda>entries.
     bindE (filterE (\<lambda>(k, v). includes_js v pagePath) entries) (\<lambda>kept. Inr (map fst kept)))"

text \<open>
  \<open>getReviewsForPage\<close> reads the module's \<^verbatim>\<open>siteConfig\<close>, the result of \<open>loadConfig\<close>
  at start-up; here it is an argument. The returned object \<^verbatim>\<open>{ reviews, config }\<close> is the
  pair of its two components, \<open>None\<close> for a \<^verbatim>\<open>null\<close> config. \<^verbatim>\<open>r.id\<close> is included in the
  list of tagged ids when it is the same string as one of them.
\<close>

definition getReviewsForPage ::
  "runtime \<Rightarrow> SiteConfig \<Rightarrow> string \<Rightarrow> error + (Review list \<times> ReviewPageConfig option)" where
  "getReviewsForPage rt siteConfig pagePath =
     (if \<not> truthy (ReviewsConfig.enabled (SiteConfig.reviews siteConfig))
      then Inr ([], None)
      else
     (case find (\<lambda>p. ReviewPageConfig.path p = JStr pagePath)
             (ReviewsConfig.pages (SiteConfig.reviews siteConfig)) of
        None \<Rightarrow> Inr ([], None)
      | Some pageConfig \<Rightarrow>
          (let allReviews = loadReviews rt;
               tg = ReviewsConfig.tagged (SiteConfig.reviews siteConfig)
           in bindE (taggedReviewIds tg pagePath) (\<lambda>ids.
              bindE (slice0 (StringToNumber rt)
                       (filter (\<lambda>r. Review.id r \<in> set (map JStr ids)) allReviews)
                       (ReviewPageConfig.maxReviews pageConfig)) (\<lambda>pageReviews.
              Inr (pageReviews, Some pageConfig))))))"

section \<open>The shape of a document\<close>































































section \<open>Notions the statements use\<close>

text \<open>
  The weekday keys of the \<^verbatim>\<open>hours\<close> section, each with the field of \<open>Hours\<close> it fills.
\<close>

definition weekdays :: "(string \<times> (Hours \<Rightarrow> jv)) list" where
  "weekdays =
     [(''monday'', Hours.monday), (''tuesday'', Hours.tuesday), (''wednesday'', Hours.wednesday),
      (''thursday'', Hours.thursday), (''friday'', Hours.friday), (''saturday'', Hours.saturday),
      (''sunday'', Hours.sunday)]"


text \<open>
  A review is tagged for a page when its id is a key of \<^verbatim>\<open>tagged\<close> whose sequence of paths
  contains the page's path.
\<close>

definition tagged_for :: "jv \<Rightarrow> string \<Rightarrow> Review \<Rightarrow> bool" where
  "tagged_for tg pagePath r =
     (case Review.id r of
        JStr k \<Rightarrow> (case get_prop tg k of JArr ps \<Rightarrow> JStr pagePath \<in> set ps | _ \<Rightarrow> False)
      | _ \<Rightarrow> False)"


section \<open>Example documents\<close>

text \<open>
  A runtime for the examples: the year, the tree that \<^verbatim>\<open>config.yaml\<close> parses to and, when
  \<^verbatim>\<open>data/reviews.json\<close> exists, the tree it parses to. The text of a file stands for
  itself. No example has a string in a numeric position, so StringToNumber is never called.
\<close>

definition example_runtime :: "int \<Rightarrow> jv \<Rightarrow> jv option \<Rightarrow> runtime" where
  "example_runtime year config data =
     \<lparr> currentYear = year,
       readFileSync = (\<lambda>p. if p = ''config.yaml'' then Some ''config.yaml''
                         else if p = ''data/reviews.json'' \<and> data \<noteq> None then Some ''reviews.json''
                         else None),
       YAML_parse = (\<lambda>s. if s = ''config.yaml'' then Some config else None),
       JSON_parse = (\<lambda>s. if s = ''reviews.json'' then data else None),
       StringToNumber = (\<lambda>s. JNaN) \<rparr>"



text \<open>A display phone written as a YAML number, and no \<^verbatim>\<open>phone_raw\<close>.\<close>

definition doc_numeric_phone :: jv where
  "doc_numeric_phone = JObj [(''contact'', JObj [(''phone'', JNum 5555550100)])]"


text \<open>The contact section of the README's quick start: a display phone, no \<^verbatim>\<open>phone_raw\<close>.\<close>

definition doc_quick_start :: jv where
  "doc_quick_start =
     JObj [(''site'', JObj [(''name'', JStr ''Your Company Name'')]),
           (''contact'', JObj [(''email'', JStr ''hello@yoursite.com''),
                               (''phone'', JStr ''1-800-555-0100'')])]"


definition doc_hours_both :: jv where
  "doc_hours_both =
     JObj [(''hours'', JObj [(''monday'', JStr ''9AM-5PM''), (''tuesday'', JStr ''9AM-5PM''),
                             (''detailed'', JObj [(''monday'', JStr ''8AM-6PM'')])])]"

definition doc_hours_empty_detailed :: jv where
  "doc_hours_empty_detailed =
     JObj [(''hours'', JObj [(''monday'', JStr ''9AM-5PM''), (''detailed'', JObj [])])]"

definition doc_items :: jv where
  "doc_items =
     JObj [(''services'', JObj [(''items'', JArr [JObj [(''name'', JStr ''Plumbing'')], JObj []])]),
           (''value_props'', JObj [(''items'', JArr [JObj [(''title'', JStr ''Fast'')]])]),
           (''trust'', JObj [(''certifications'', JArr [JStr ''ISO 9001'', JStr ''BBB''])])]"

definition doc_certifications :: jv where
  "doc_certifications =
     JObj [(''trust'', JObj [(''certifications'', JArr [JStr ''ISO 9001'', JStr '''', JStr ''BBB''])])]"

definition doc_founded :: jv where
  "doc_founded =
     JObj [(''business'', JObj [(''year_founded'', JNum 2010), (''years_in_business'', JNum 99)]),
           (''trust'', JObj [(''years_in_business'', JNum 99)]),
           (''years_in_business'', JNum 99)]"

definition doc_names :: jv where
  "doc_names =
     JObj [(''business'', JObj [(''name'', JStr ''X'')]), (''site'', JObj [(''name'', JStr ''Y'')])]"

definition doc_reviews :: "bool \<Rightarrow> jv" where
  "doc_reviews on =
     JObj [(''reviews'',
            JObj [(''enabled'', JBool on),
                  (''pages'', JArr [JObj [(''path'', JStr ''/contact''), (''max_reviews'', JNum 1)]]),
                  (''tagged'', JObj [(''A'', JArr [JStr ''/contact'']),
                                     (''B'', JArr [JStr ''/contact'']),
                                     (''C'', JArr [JStr ''/about''])])])]"

definition data_reviews :: jv where
  "data_reviews =
     JObj [(''reviews'',
            JArr [JObj [(''id'', JStr ''A''), (''author'', JStr ''Ann''), (''rating'', JNum 5)],
                  JObj [(''id'', JStr ''B''), (''author'', JStr ''Bob''), (''rating'', JNum 4)],
                  JObj [(''id'', JStr ''C''), (''author'', JStr ''Cy''), (''rating'', JNum 5)]])]"


definition page_contact :: ReviewPageConfig where
  "page_contact =
     \<lparr> ReviewPageConfig.path = JStr ''/contact'', ReviewPageConfig.layout = JStr ''standard'',
       ReviewPageConfig.position = JStr ''before-cta'', ReviewPageConfig.maxReviews = JNum 1 \<rparr>"

section \<open>Basic facts\<close>

declare access.simps [simp del] opt_chain.simps [simp del]

lemma bindE_Inr [simp]: "bindE (Inr x) f = f x"
  by (simp add: bindE_def)

lemma bindE_Inl [simp]: "bindE (Inl e) f = Inl e"
  by (simp add: bindE_def)

lemma bindE_eq_Inr: "bindE m f = Inr y \<longleftrightarrow> (\<exists>x. m = Inr x \<and> f x = Inr y)"
  by (cases m) simp_all

lemma bindE_InrE:
  assumes "bindE m f = Inr y"
  obtains x where "m = Inr x" and "f x = Inr y"
  using assms by (auto simp: bindE_eq_Inr)

lemma isl_bindE: "isl (bindE m f) \<longleftrightarrow> isl m \<or> isl (f (projr m))"
  by (cases m) simp_all

lemma Inr_projr: "\<not> isl m \<Longrightarrow> m = Inr (projr m)"
  by (cases m) simp_all

lemma trust_yib: "trust config yib = Inr tr \<Longrightarrow> Trust.yearsInBusiness tr = yib"
  by (auto simp: trust_def bindE_eq_Inr)

lemma isl_trust:
  "isl (trust config yib) \<longleftrightarrow>
   isl (array_filter truthy (or_js (access config [''trust'', ''certifications'']) (JArr [])))"
  by (simp add: trust_def isl_bindE)

subsection \<open>What a normal return of the loader says about each part\<close>

lemma resolve_InrD:
  assumes "resolve rt config = Inr cfg"
  shows "\<not> nullish config \<and>
     yearsInBusiness rt config = Inr (Trust.yearsInBusiness (SiteConfig.trust cfg)) \<and>
     trust config (Trust.yearsInBusiness (SiteConfig.trust cfg)) = Inr (SiteConfig.trust cfg) \<and>
     cta config = Inr (SiteConfig.cta cfg) \<and>
     services config = Inr (SiteConfig.services cfg) \<and>
     valueProps config = Inr (SiteConfig.valueProps cfg) \<and>
     seo config (business rt config) = Inr (SiteConfig.seo cfg) \<and>
     phoneRaw config = Inr (Contact.phoneRaw (SiteConfig.contact cfg)) \<and>
     hoursStructured config = Inr (SiteConfig.hoursStructured cfg) \<and>
     reviews config = Inr (SiteConfig.reviews cfg) \<and>
     copyright rt (legal config (business rt config)) = Inr (SiteConfig.copyright cfg) \<and>
     SiteConfig.name cfg = Business.name (business rt config) \<and>
     SiteConfig.tagline cfg = Business.tagline (business rt config) \<and>
     SiteConfig.description cfg = Business.description (business rt config) \<and>
     SiteConfig.url cfg = or_js (access config [''site'', ''url'']) (JStr '''') \<and>
     SiteConfig.contact cfg = contact config (Contact.phoneRaw (SiteConfig.contact cfg)) \<and>
     SiteConfig.social cfg = social config \<and>
     SiteConfig.hours cfg = hours config \<and>
     SiteConfig.navigation cfg = or_js (access config [''navigation'', ''main'']) (JArr []) \<and>
     SiteConfig.footerLinks cfg = footerLinks config \<and>
     SiteConfig.defaultOgImage cfg =
       or_js (access config [''site'', ''default_og_image'']) (JStr ''/images/og-image.png'') \<and>
     SiteConfig.analytics cfg = analytics config \<and>
     SiteConfig.business cfg = business rt config \<and>
     SiteConfig.branding cfg = branding config \<and>
     SiteConfig.features cfg = features config \<and>
     SiteConfig.legal cfg = legal config (business rt config) \<and>
     SiteConfig.locale cfg = or_js (access config [''site'', ''locale'']) (JStr ''en-US'') \<and>
     SiteConfig.timezone cfg = or_js (access config [''site'', ''timezone'']) (JStr ''America/New_York'')"
  using assms unfolding resolve_def Let_def
  apply (cases "nullish config"; simp)
  apply (erule bindE_InrE)+
  apply (frule trust_yib)
  apply (clarsimp simp: contact_def)
  done

lemma resolve_isl:
  "isl (resolve rt config) \<longleftrightarrow>
     nullish config \<or> isl (yearsInBusiness rt config) \<or>
     isl (array_filter truthy (or_js (access config [''trust'', ''certifications'']) (JArr []))) \<or>
     isl (cta config) \<or> isl (services config) \<or> isl (valueProps config) \<or>
     isl (seo config (business rt config)) \<or> isl (phoneRaw config) \<or>
     isl (hoursStructured config) \<or> isl (reviews config) \<or>
     isl (copyright rt (legal config (business rt config)))"
  unfolding resolve_def Let_def
  by (simp add: isl_bindE isl_trust)

lemma loadConfig_resolve:
  assumes "readFileSync rt ''config.yaml'' = Some configFile"
      and "YAML_parse rt configFile = Some config"
  shows "loadConfig rt = resolve rt config"
  using assms by (simp add: loadConfig_def)

lemma loadConfig_parts:
  assumes "readFileSync rt ''config.yaml'' = Some configFile"
      and "YAML_parse rt configFile = Some config"
      and "loadConfig rt = Inr cfg"
  shows "SiteConfig.business cfg = business rt config"
    and "SiteConfig.contact cfg = contact config (Contact.phoneRaw (SiteConfig.contact cfg))"
    and "phoneRaw config = Inr (Contact.phoneRaw (SiteConfig.contact cfg))"
    and "SiteConfig.hours cfg = hours config"
    and "yearsInBusiness rt config = Inr (Trust.yearsInBusiness (SiteConfig.trust cfg))"
    and "trust config (Trust.yearsInBusiness (SiteConfig.trust cfg)) = Inr (SiteConfig.trust cfg)"
    and "services config = Inr (SiteConfig.services cfg)"
    and "valueProps config = Inr (SiteConfig.valueProps cfg)"
    and "cta config = Inr (SiteConfig.cta cfg)"
    and "reviews config = Inr (SiteConfig.reviews cfg)"
  using resolve_InrD [of rt config cfg] loadConfig_resolve [OF assms(1,2)] assms(3)
  by simp_all

lemma example_reads:
  "readFileSync (example_runtime y config d) ''config.yaml'' = Some ''config.yaml''"
  "YAML_parse (example_runtime y config d) ''config.yaml'' = Some config"
  "currentYear (example_runtime y config d) = y"
  by (simp_all add: example_runtime_def)

section \<open>The business name chain\<close>

text \<open>
  Claim C7. On every document on which the loader returns, the resolved business name is
  \<^verbatim>\<open>business.name\<close> if present, else \<^verbatim>\<open>site.name\<close>, else the literal \<^verbatim>\<open>Acme Corp\<close>, and
  the resolved legal name is \<^verbatim>\<open>business.legal_name\<close> if present, else the resolved business
  name. A field is present when it is populated: the loader tests it with \<^verbatim>\<open>||\<close>, so an
  absent, \<^verbatim>\<open>null\<close> or empty-string field is not.
\<close>

theorem C7_business_name_chain:
  assumes "readFileSync rt ''config.yaml'' = Some configFile"
      and "YAML_parse rt configFile = Some config"
      and "loadConfig rt = Inr cfg"
  shows "Business.name (SiteConfig.business cfg) =
           (if truthy (access config [''business'', ''name''])
            then access config [''business'', ''name'']
            else if truthy (access config [''site'', ''name''])
            then access config [''site'', ''name'']
            else JStr ''Acme Corp'') \<and>
         Business.legalName (SiteConfig.business cfg) =
           (if truthy (access config [''business'', ''legal_name''])
            then access config [''business'', ''legal_name'']
            else Business.name (SiteConfig.business cfg))"
  by (simp add: loadConfig_parts(1) [OF assms] business_def or_js_def)

text \<open>
  The document \<^verbatim>\<open>{business: {name: "X"}, site: {name: "Y"}}\<close> resolves to the name
  \<^verbatim>\<open>X\<close>, which is the legal name too.
\<close>

theorem C7_business_name_chain_witness:
  "readFileSync (example_runtime 2025 doc_names None) ''config.yaml'' = Some ''config.yaml'' \<and>
   YAML_parse (example_runtime 2025 doc_names None) ''config.yaml'' = Some doc_names \<and>
   loadConfig (example_runtime 2025 doc_names None) =
     Inr (projr (loadConfig (example_runtime 2025 doc_names None))) \<and>
   Business.name (SiteConfig.business (projr (loadConfig (example_runtime 2025 doc_names None)))) =
     JStr ''X'' \<and>
   Business.legalName (SiteConfig.business (projr (loadConfig (example_runtime 2025 doc_names None)))) =
     JStr ''X''"
proof -
  let ?rt = "example_runtime 2025 doc_names None"
  have r: "loadConfig ?rt = Inr (projr (loadConfig ?rt))"
    by (rule Inr_projr) code_simp
  have a: "access doc_names [''business'', ''name''] = JStr ''X''"
    by code_simp
  have b: "\<not> truthy (access doc_names [''business'', ''legal_name''])"
    by code_simp
  from C7_business_name_chain [OF example_reads(1) example_reads(2) r] a b r
  show ?thesis
    by (simp add: example_reads)
qed

section \<open>The phone chain\<close>







section \<open>Years in business\<close>

lemma minus_js_num: "minus_js s2n (JNum a) (JNum b) = Inr (JNum (a - b))"
  by (simp add: minus_js_def ToNumber_def)

text \<open>
  Claim C5. On every document on which the loader returns, \<open>trust.yearsInBusiness\<close> is the
  current year minus the resolved \<open>business.yearFounded\<close>; \<open>yearFounded\<close> is
  \<^verbatim>\<open>business.year_founded\<close>, or the current year when that is absent, and then the
  difference is 0; for a year \<open>y\<close> it is the integer difference. No other field of the
  document is read for it: two documents with the same \<^verbatim>\<open>business.year_founded\<close>, loaded
  in the same year, resolve to the same \<open>yearsInBusiness\<close>, whatever
  \<^verbatim>\<open>years_in_business\<close> fields they hold.
\<close>

theorem C5_years_in_business:
  assumes "readFileSync rt ''config.yaml'' = Some configFile"
      and "YAML_parse rt configFile = Some config"
      and "loadConfig rt = Inr cfg"
  shows "Business.yearFounded (SiteConfig.business cfg) =
           (if truthy (access config [''business'', ''year_founded''])
            then access config [''business'', ''year_founded'']
            else JNum (currentYear rt)) \<and>
         minus_js (StringToNumber rt) (JNum (currentYear rt))
             (Business.yearFounded (SiteConfig.business cfg)) =
           Inr (Trust.yearsInBusiness (SiteConfig.trust cfg)) \<and>
         (\<not> truthy (access config [''business'', ''year_founded'']) \<longrightarrow>
            Trust.yearsInBusiness (SiteConfig.trust cfg) = JNum 0) \<and>
         (\<forall>y. access config [''business'', ''year_founded''] = JNum y \<and> y \<noteq> 0 \<longrightarrow>
            Trust.yearsInBusiness (SiteConfig.trust cfg) = JNum (currentYear rt - y)) \<and>
         (\<forall>rt' configFile' config' cfg'.
            readFileSync rt' ''config.yaml'' = Some configFile' \<and>
            YAML_parse rt' configFile' = Some config' \<and>
            loadConfig rt' = Inr cfg' \<and>
            currentYear rt' = currentYear rt \<and> StringToNumber rt' = StringToNumber rt \<and>
            access config' [''business'', ''year_founded''] =
              access config [''business'', ''year_founded''] \<longrightarrow>
            Trust.yearsInBusiness (SiteConfig.trust cfg') =
              Trust.yearsInBusiness (SiteConfig.trust cfg))"
proof -
  have b: "Business.yearFounded (SiteConfig.business cfg) = yearFounded rt config"
    by (simp add: loadConfig_parts(1) [OF assms] business_def)
  have y: "minus_js (StringToNumber rt) (JNum (currentYear rt)) (yearFounded rt config) =
             Inr (Trust.yearsInBusiness (SiteConfig.trust cfg))"
    using loadConfig_parts(5) [OF assms] by (simp add: yearsInBusiness_def)
  have i: "Trust.yearsInBusiness (SiteConfig.trust cfg') = Trust.yearsInBusiness (SiteConfig.trust cfg)"
    if "readFileSync rt' ''config.yaml'' = Some configFile'"
      and "YAML_parse rt' configFile' = Some config'"
      and "loadConfig rt' = Inr cfg'"
      and "currentYear rt' = currentYear rt" and "StringToNumber rt' = StringToNumber rt"
      and "access config' [''business'', ''year_founded''] = access config [''business'', ''year_founded'']"
    for rt' configFile' config' cfg'
    using loadConfig_parts(5) [OF that(1,2,3)] y that(4,5,6)
    by (simp add: yearsInBusiness_def yearFounded_def)
  show ?thesis
    using y i
    by (auto simp: b yearFounded_def or_js_def minus_js_num)
qed

text \<open>
  Founded in 2010 and loaded in 2025, with \<^verbatim>\<open>years_in_business: 99\<close> at three places of
  the document: the resolved value is 15.
\<close>

theorem C5_years_in_business_witness:
  "readFileSync (example_runtime 2025 doc_founded None) ''config.yaml'' = Some ''config.yaml'' \<and>
   YAML_parse (example_runtime 2025 doc_founded None) ''config.yaml'' = Some doc_founded \<and>
   loadConfig (example_runtime 2025 doc_founded None) =
     Inr (projr (loadConfig (example_runtime 2025 doc_founded None))) \<and>
   access doc_founded [''business'', ''year_founded''] = JNum 2010 \<and>
   access doc_founded [''trust'', ''years_in_business''] = JNum 99 \<and>
   Business.yearFounded (SiteConfig.business (projr (loadConfig (example_runtime 2025 doc_founded None)))) =
     JNum 2010 \<and>
   Trust.yearsInBusiness (SiteConfig.trust (projr (loadConfig (example_runtime 2025 doc_founded None)))) =
     JNum 15"
proof -
  let ?rt = "example_runtime 2025 doc_founded None"
  have r: "loadConfig ?rt = Inr (projr (loadConfig ?rt))"
    by (rule Inr_projr) code_simp
  have a: "access doc_founded [''business'', ''year_founded''] = JNum 2010"
          "access doc_founded [''trust'', ''years_in_business''] = JNum 99"
    by code_simp+
  from C5_years_in_business [OF example_reads(1) example_reads(2) r] a r
  show ?thesis
    by (simp add: example_reads)
qed

section \<open>The source of the weekday strings\<close>

lemma hours_weekdays:
  "\<forall>(k, day) \<in> set weekdays. day (hours config) = or_js (get_prop (hoursDetailed config) k) (JStr '''')"
  by (simp add: weekdays_def hours_def)

text \<open>
  Claim C3, as amended. On every document on which the loader returns: if \<^verbatim>\<open>hours.detailed\<close>
  is truthy (any object, the empty object \<^verbatim>\<open>{}\<close> too), each weekday string is taken from
  \<^verbatim>\<open>hours.detailed\<close> alone, the empty string where it has none, and never from the flat
  \<^verbatim>\<open>hours\<close> object; if \<^verbatim>\<open>hours.detailed\<close> is absent, \<^verbatim>\<open>null\<close> or another falsy value,
  each weekday string is taken from the flat \<^verbatim>\<open>hours\<close> object.
\<close>

theorem C3_hours_source:
  assumes "readFileSync rt ''config.yaml'' = Some configFile"
      and "YAML_parse rt configFile = Some config"
      and "loadConfig rt = Inr cfg"
  shows "(truthy (access config [''hours'', ''detailed'']) \<longrightarrow>
            (\<forall>(k, day) \<in> set weekdays.
               day (SiteConfig.hours cfg) =
                 or_js (get_prop (access config [''hours'', ''detailed'']) k) (JStr ''''))) \<and>
         (\<not> truthy (access config [''hours'', ''detailed'']) \<longrightarrow>
            (\<forall>(k, day) \<in> set weekdays.
               day (SiteConfig.hours cfg) =
                 or_js (get_prop (access config [''hours'']) k) (JStr '''')))"
proof -
  have h: "SiteConfig.hours cfg = hours config"
    by (rule loadConfig_parts(4) [OF assms])
  have f: "get_prop (hoursDetailed config) k = get_prop (access config [''hours'']) k"
    if "\<not> truthy (access config [''hours'', ''detailed''])" for k
    using that by (cases "access config [''hours'']") (simp_all add: hoursDetailed_def or_js_def)
  have d: "hoursDetailed config = access config [''hours'', ''detailed'']"
    if "truthy (access config [''hours'', ''detailed''])"
    using that by (simp add: hoursDetailed_def or_js_def)
  show ?thesis
    using hours_weekdays [of config] by (auto simp: h f d)
qed

text \<open>
  With both shapes populated the detailed one wins for Monday, and Tuesday, which only the
  flat shape has, resolves to the empty string: the shapes are not merged.
\<close>

theorem C3_hours_source_witness:
  "readFileSync (example_runtime 2025 doc_hours_both None) ''config.yaml'' = Some ''config.yaml'' \<and>
   YAML_parse (example_runtime 2025 doc_hours_both None) ''config.yaml'' = Some doc_hours_both \<and>
   loadConfig (example_runtime 2025 doc_hours_both None) =
     Inr (projr (loadConfig (example_runtime 2025 doc_hours_both None))) \<and>
   truthy (access doc_hours_both [''hours'', ''detailed'']) \<and>
   get_prop (access doc_hours_both [''hours'']) ''monday'' = JStr ''9AM-5PM'' \<and>
   get_prop (access doc_hours_both [''hours'']) ''tuesday'' = JStr ''9AM-5PM'' \<and>
   Hours.monday (SiteConfig.hours (projr (loadConfig (example_runtime 2025 doc_hours_both None)))) =
     JStr ''8AM-6PM'' \<and>
   Hours.tuesday (SiteConfig.hours (projr (loadConfig (example_runtime 2025 doc_hours_both None)))) =
     JStr ''''"
proof -
  let ?rt = "example_runtime 2025 doc_hours_both None"
  have r: "loadConfig ?rt = Inr (projr (loadConfig ?rt))"
    by (rule Inr_projr) code_simp
  have a: "truthy (access doc_hours_both [''hours'', ''detailed''])"
          "get_prop (access doc_hours_both [''hours'']) ''monday'' = JStr ''9AM-5PM''"
          "get_prop (access doc_hours_both [''hours'']) ''tuesday'' = JStr ''9AM-5PM''"
          "or_js (get_prop (access doc_hours_both [''hours'', ''detailed'']) ''monday'') (JStr '''') =
             JStr ''8AM-6PM''"
          "or_js (get_prop (access doc_hours_both [''hours'', ''detailed'']) ''tuesday'') (JStr '''') =
             JStr ''''"
    by code_simp+
  from C3_hours_source [OF example_reads(1) example_reads(2) r] a r
  show ?thesis
    by (simp add: example_reads weekdays_def)
qed

text \<open>
  Claim C3 as stated fails on a present but empty \<^verbatim>\<open>hours.detailed\<close>: the empty object is
  truthy, so the flat Monday string is not used.
\<close>

theorem C3_empty_detailed_counterexample:
  "\<not> isl (loadConfig (example_runtime 2025 doc_hours_empty_detailed None)) \<and>
   access doc_hours_empty_detailed [''hours'', ''detailed''] = JObj [] \<and>
   get_prop (access doc_hours_empty_detailed [''hours'']) ''monday'' = JStr ''9AM-5PM'' \<and>
   Hours.monday (SiteConfig.hours (projr (loadConfig (example_runtime 2025 doc_hours_empty_detailed None)))) =
     JStr '''' \<and>
   Hours.monday (SiteConfig.hours (projr (loadConfig (example_runtime 2025 doc_hours_empty_detailed None)))) \<noteq>
     get_prop (access doc_hours_empty_detailed [''hours'']) ''monday''"
  by code_simp

section \<open>Sequence items\<close>

lemma mapE_Inr_list_all2:
  assumes "\<And>x y. f x = Inr y \<Longrightarrow> P x y"
  shows "mapE f xs = Inr ys \<Longrightarrow> list_all2 P xs ys"
proof (induction xs arbitrary: ys)
  case Nil
  then show ?case by simp
next
  case (Cons x xs)
  then show ?case
    by (auto simp: bindE_eq_Inr intro: assms)
qed

lemma array_map_InrD:
  assumes "array_map f v = Inr ys"
  obtains xs where "v = JArr xs" and "mapE f xs = Inr ys"
  using assms by (cases v) (simp_all add: array_map_def)

lemma array_filter_InrD:
  assumes "array_filter p v = Inr ys"
  obtains xs where "v = JArr xs" and "ys = filter p xs"
  using assms by (cases v) (auto simp: array_filter_def)

lemma serviceItem_InrD:
  "serviceItem s = Inr it \<Longrightarrow>
     \<not> nullish s \<and>
     ServiceItem.name it = or_js (get_prop s ''name'') (JStr '''') \<and>
     ServiceItem.description it = or_js (get_prop s ''description'') (JStr '''') \<and>
     ServiceItem.icon it = or_js (get_prop s ''icon'') (JStr ''star'') \<and>
     ServiceItem.url it = or_js (get_prop s ''url'') (JStr '''')"
  by (auto simp: serviceItem_def split: if_splits)

lemma valuePropItem_InrD:
  "valuePropItem v = Inr it \<Longrightarrow>
     \<not> nullish v \<and>
     ValuePropItem.title it = or_js (get_prop v ''title'') (JStr '''') \<and>
     ValuePropItem.description it = or_js (get_prop v ''description'') (JStr '''') \<and>
     ValuePropItem.icon it = or_js (get_prop v ''icon'') (JStr ''check'')"
  by (auto simp: valuePropItem_def split: if_splits)

lemma services_InrD:
  "services config = Inr sv \<Longrightarrow>
     array_map serviceItem (or_js (access config [''services'', ''items'']) (JArr [])) =
       Inr (Services.items sv)"
  by (auto simp: services_def bindE_eq_Inr)

lemma valueProps_InrD:
  "valueProps config = Inr vp \<Longrightarrow>
     array_map valuePropItem (or_js (access config [''value_props'', ''items'']) (JArr [])) =
       Inr (ValueProps.items vp)"
  by (auto simp: valueProps_def bindE_eq_Inr)

lemma trust_InrD:
  "trust config yib = Inr tr \<Longrightarrow>
     array_filter truthy (or_js (access config [''trust'', ''certifications'']) (JArr [])) =
       Inr (Trust.certifications tr)"
  by (auto simp: trust_def bindE_eq_Inr)

text \<open>
  Claim C4, as amended. On every document on which the loader returns, each entry of
  \<^verbatim>\<open>services.items\<close> and of \<^verbatim>\<open>value_props.items\<close> yields one item at the same position
  of the resolved sequence, with each sub-field defaulted on its own (\<^verbatim>\<open>icon\<close> to
  \<^verbatim>\<open>star\<close> for a service and to \<^verbatim>\<open>check\<close> for a value prop, the others to the empty
  string), so these two sequences have the length of their inputs. The resolved
  \<^verbatim>\<open>trust.certifications\<close> is the input sequence without its falsy entries (empty strings,
  \<^verbatim>\<open>null\<close>), in the input's order. An absent sequence counts as the empty one.
\<close>

theorem C4_sequence_items:
  assumes "readFileSync rt ''config.yaml'' = Some configFile"
      and "YAML_parse rt configFile = Some config"
      and "loadConfig rt = Inr cfg"
  shows "(\<exists>xs. or_js (access config [''services'', ''items'']) (JArr []) = JArr xs \<and>
            length (Services.items (SiteConfig.services cfg)) = length xs \<and>
            list_all2
              (\<lambda>s it. ServiceItem.name it = or_js (get_prop s ''name'') (JStr '''') \<and>
                      ServiceItem.description it = or_js (get_prop s ''description'') (JStr '''') \<and>
                      ServiceItem.icon it = or_js (get_prop s ''icon'') (JStr ''star'') \<and>
                      ServiceItem.url it = or_js (get_prop s ''url'') (JStr ''''))
              xs (Services.items (SiteConfig.services cfg))) \<and>
         (\<exists>xs. or_js (access config [''value_props'', ''items'']) (JArr []) = JArr xs \<and>
            length (ValueProps.items (SiteConfig.valueProps cfg)) = length xs \<and>
            list_all2
              (\<lambda>v it. ValuePropItem.title it = or_js (get_prop v ''title'') (JStr '''') \<and>
                      ValuePropItem.description it = or_js (get_prop v ''description'') (JStr '''') \<and>
                      ValuePropItem.icon it = or_js (get_prop v ''icon'') (JStr ''check''))
              xs (ValueProps.items (SiteConfig.valueProps cfg))) \<and>
         (\<exists>xs. or_js (access config [''trust'', ''certifications'']) (JArr []) = JArr xs \<and>
            Trust.certifications (SiteConfig.trust cfg) = filter truthy xs)"
proof -
  let ?P = "\<lambda>s it. ServiceItem.name it = or_js (get_prop s ''name'') (JStr '''') \<and>
                      ServiceItem.description it = or_js (get_prop s ''description'') (JStr '''') \<and>
                      ServiceItem.icon it = or_js (get_prop s ''icon'') (JStr ''star'') \<and>
                      ServiceItem.url it = or_js (get_prop s ''url'') (JStr '''')"
  let ?Q = "\<lambda>v it. ValuePropItem.title it = or_js (get_prop v ''title'') (JStr '''') \<and>
                      ValuePropItem.description it = or_js (get_prop v ''description'') (JStr '''') \<and>
                      ValuePropItem.icon it = or_js (get_prop v ''icon'') (JStr ''check'')"
  define its where "its = Services.items (SiteConfig.services cfg)"
  have s2: "Services.items (SiteConfig.services cfg) = its"
    by (simp add: its_def)
  have s1: "array_map serviceItem (or_js (access config [''services'', ''items'']) (JArr [])) = Inr its"
    unfolding its_def by (rule services_InrD [OF loadConfig_parts(7) [OF assms]])
  obtain xs where s3: "or_js (access config [''services'', ''items'']) (JArr []) = JArr xs"
    and s4: "mapE serviceItem xs = Inr its"
    using s1 by (rule array_map_InrD)
  have s5: "list_all2 ?P xs its"
    by (rule mapE_Inr_list_all2 [OF _ s4]) (simp add: serviceItem_InrD)
  define vts where "vts = ValueProps.items (SiteConfig.valueProps cfg)"
  have v2: "ValueProps.items (SiteConfig.valueProps cfg) = vts"
    by (simp add: vts_def)
  have v1: "array_map valuePropItem (or_js (access config [''value_props'', ''items'']) (JArr [])) = Inr vts"
    unfolding vts_def by (rule valueProps_InrD [OF loadConfig_parts(8) [OF assms]])
  obtain ys where v3: "or_js (access config [''value_props'', ''items'']) (JArr []) = JArr ys"
    and v4: "mapE valuePropItem ys = Inr vts"
    using v1 by (rule array_map_InrD)
  have v5: "list_all2 ?Q ys vts"
    by (rule mapE_Inr_list_all2 [OF _ v4]) (simp add: valuePropItem_InrD)
  define certs where "certs = Trust.certifications (SiteConfig.trust cfg)"
  have c2: "Trust.certifications (SiteConfig.trust cfg) = certs"
    by (simp add: certs_def)
  have c1: "array_filter truthy (or_js (access config [''trust'', ''certifications'']) (JArr [])) = Inr certs"
    unfolding certs_def by (rule trust_InrD [OF loadConfig_parts(6) [OF assms]])
  obtain zs where c3: "or_js (access config [''trust'', ''certifications'']) (JArr []) = JArr zs"
    and c4: "certs = filter truthy zs"
    using c1 by (rule array_filter_InrD)
  have "length its = length xs" "length vts = length ys"
    using s5 v5 by (simp_all add: list_all2_lengthD)
  then show ?thesis
    using s2 s3 s5 v2 v3 v5 c2 c3 c4 by simp
qed

text \<open>
  Two services, the second one an empty object: two resolved items, both with the default
  icon, the second with the empty name.
\<close>

theorem C4_sequence_items_witness:
  "readFileSync (example_runtime 2025 doc_items None) ''config.yaml'' = Some ''config.yaml'' \<and>
   YAML_parse (example_runtime 2025 doc_items None) ''config.yaml'' = Some doc_items \<and>
   loadConfig (example_runtime 2025 doc_items None) =
     Inr (projr (loadConfig (example_runtime 2025 doc_items None))) \<and>
   access doc_items [''services'', ''items''] = JArr [JObj [(''name'', JStr ''Plumbing'')], JObj []] \<and>
   length (Services.items (SiteConfig.services (projr (loadConfig (example_runtime 2025 doc_items None))))) = 2 \<and>
   map ServiceItem.icon
     (Services.items (SiteConfig.services (projr (loadConfig (example_runtime 2025 doc_items None))))) =
     [JStr ''star'', JStr ''star''] \<and>
   map ServiceItem.name
     (Services.items (SiteConfig.services (projr (loadConfig (example_runtime 2025 doc_items None))))) =
     [JStr ''Plumbing'', JStr ''''] \<and>
   length (ValueProps.items (SiteConfig.valueProps (projr (loadConfig (example_runtime 2025 doc_items None))))) = 1 \<and>
   Trust.certifications (SiteConfig.trust (projr (loadConfig (example_runtime 2025 doc_items None)))) =
     [JStr ''ISO 9001'', JStr ''BBB'']"
proof -
  let ?rt = "example_runtime 2025 doc_items None"
  let ?cfg = "projr (loadConfig ?rt)"
  have r: "loadConfig ?rt = Inr ?cfg"
    by (rule Inr_projr) code_simp
  have a: "access doc_items [''services'', ''items''] = JArr [JObj [(''name'', JStr ''Plumbing'')], JObj []]"
          "access doc_items [''value_props'', ''items''] = JArr [JObj [(''title'', JStr ''Fast'')]]"
          "access doc_items [''trust'', ''certifications''] = JArr [JStr ''ISO 9001'', JStr ''BBB'']"
    by code_simp+
  from C4_sequence_items [OF example_reads(1) example_reads(2) r] a r
  show ?thesis
    by (auto simp: example_reads or_js_def list_all2_Cons1)
qed

text \<open>
  Claim C4 as stated fails on \<^verbatim>\<open>trust.certifications\<close>: an empty-string entry is dropped,
  and three entries resolve to two.
\<close>

theorem C4_certifications_counterexample:
  "\<not> isl (loadConfig (example_runtime 2025 doc_certifications None)) \<and>
   access doc_certifications [''trust'', ''certifications''] =
     JArr [JStr ''ISO 9001'', JStr '''', JStr ''BBB''] \<and>
   Trust.certifications (SiteConfig.trust (projr (loadConfig (example_runtime 2025 doc_certifications None)))) =
     [JStr ''ISO 9001'', JStr ''BBB''] \<and>
   length (Trust.certifications
     (SiteConfig.trust (projr (loadConfig (example_runtime 2025 doc_certifications None))))) \<noteq> 3"
  by code_simp

section \<open>The default of the secondary call-to-action link\<close>

text \<open>
  Claim C2 says that an absent \<^verbatim>\<open>cta.secondary.url\<close> resolves to \<^verbatim>\<open>tel:\<close> followed by the
  resolved raw phone, also when the raw phone was derived from the display phone. The loader
  fills the template from \<^verbatim>\<open>contact.phone_raw\<close> of the document instead. On the contact
  section of the README's quick start, which has a display phone and no \<^verbatim>\<open>phone_raw\<close>, the
  resolved raw phone is \<^verbatim>\<open>18005550100\<close> and the resolved link is the bare \<^verbatim>\<open>tel:\<close>.
\<close>

theorem C2_call_link_ignores_derived_phone:
  "\<not> isl (loadConfig (example_runtime 2025 doc_quick_start None)) \<and>
   access doc_quick_start [''cta'', ''secondary'', ''url''] = JUndefined \<and>
   Contact.phoneRaw (SiteConfig.contact (projr (loadConfig (example_runtime 2025 doc_quick_start None)))) =
     JStr ''18005550100'' \<and>
   Link.url (CTA.secondary (SiteConfig.cta (projr (loadConfig (example_runtime 2025 doc_quick_start None))))) =
     JStr ''tel:''"
  by code_simp

section \<open>The reviews of a page\<close>









text \<open>
  Claim C8. When the resolved \<open>reviews.enabled\<close> is false (or any other falsy value),
  \<open>getReviewsForPage\<close> returns the empty sequence and no page config for every path,
  whatever the page configs, the tags and the dataset are: it returns before it looks at any
  of them.
\<close>

theorem C8_disabled_short_circuit:
  assumes "\<not> truthy (ReviewsConfig.enabled (SiteConfig.reviews siteConfig))"
  shows "getReviewsForPage rt siteConfig pagePath = Inr ([], None)"
  using assms by (simp add: getReviewsForPage_def)

text \<open>
  Reviews disabled in a document that has a page config for \<^verbatim>\<open>/contact\<close> and reviews
  tagged for it: the result for \<^verbatim>\<open>/contact\<close> is empty.
\<close>

theorem C8_disabled_short_circuit_witness:
  "\<not> truthy (ReviewsConfig.enabled (SiteConfig.reviews
       (projr (loadConfig (example_runtime 2025 (doc_reviews False) (Some data_reviews)))))) \<and>
   find (\<lambda>p. ReviewPageConfig.path p = JStr ''/contact'')
     (ReviewsConfig.pages (SiteConfig.reviews
       (projr (loadConfig (example_runtime 2025 (doc_reviews False) (Some data_reviews)))))) =
     Some page_contact \<and>
   filter (tagged_for (ReviewsConfig.tagged (SiteConfig.reviews
       (projr (loadConfig (example_runtime 2025 (doc_reviews False) (Some data_reviews)))))) ''/contact'')
     (loadReviews (example_runtime 2025 (doc_reviews False) (Some data_reviews))) \<noteq> [] \<and>
   getReviewsForPage (example_runtime 2025 (doc_reviews False) (Some data_reviews))
     (projr (loadConfig (example_runtime 2025 (doc_reviews False) (Some data_reviews)))) ''/contact'' =
     Inr ([], None)"
proof -
  let ?rt = "example_runtime 2025 (doc_reviews False) (Some data_reviews)"
  let ?cfg = "projr (loadConfig ?rt)"
  have d: "\<not> truthy (ReviewsConfig.enabled (SiteConfig.reviews ?cfg))"
    by code_simp
  have f: "find (\<lambda>p. ReviewPageConfig.path p = JStr ''/contact'')
             (ReviewsConfig.pages (SiteConfig.reviews ?cfg)) = Some page_contact"
    by code_simp
  have t: "filter (tagged_for (ReviewsConfig.tagged (SiteConfig.reviews ?cfg)) ''/contact'')
             (loadReviews ?rt) \<noteq> []"
    by code_simp
  from C8_disabled_short_circuit [OF d, where pagePath = "''/contact''" and rt = ?rt] d f t
  show ?thesis
    by simp
qed





section \<open>Totality of the loader on documents of the declared shape\<close>
















subsection \<open>The parts that cannot raise\<close>













subsection \<open>The parts that can raise\<close>















subsection \<open>The whole result\<close>





text \<open>
  So does a display phone that is a number when there is no \<^verbatim>\<open>phone_raw\<close>, and a document
  that parses to \<^verbatim>\<open>null\<close>.
\<close>

lemma loadConfig_raises_on_numeric_phone:
  "loadConfig (example_runtime 2025 doc_numeric_phone None) = Inl TypeError"
  by code_simp

lemma loadConfig_raises_on_null_document:
  "loadConfig (example_runtime 2025 JNull None) = Inl TypeError"
  by code_simp

end
